theory Spec2Isabelle
  imports
    Main
    "HOL-Library.Sublist"
    "HOL-Library.Char_ord"
    "HOL-Library.List_Lexorder"
begin

section \<open>Strings of the JavaScript runtime\<close>

text \<open>
  Every field of a wine record is a string. A string is modelled as \<^typ>\<open>string\<close>;
  a field that may be missing (\<^verbatim>\<open>undefined\<close>) is a \<^typ>\<open>string option\<close>.
  The model is one of ASCII strings: the case conversions below act on the ASCII letters
  and leave every other character alone, which is what \<^verbatim>\<open>toUpperCase\<close> and
  \<^verbatim>\<open>toLowerCase\<close> do on an ASCII string.
\<close>

definition lowerLetters :: string where
  "lowerLetters = ''abcdefghijklmnopqrstuvwxyz''"

definition upperLetters :: string where
  "upperLetters = ''ABCDEFGHIJKLMNOPQRSTUVWXYZ''"

definition digits :: string where
  "digits = ''0123456789''"

definition upperChar :: "char \<Rightarrow> char" where
  "upperChar c = (case map_of (zip lowerLetters upperLetters) c of Some u \<Rightarrow> u | None \<Rightarrow> c)"

definition lowerChar :: "char \<Rightarrow> char" where
  "lowerChar c = (case map_of (zip upperLetters lowerLetters) c of Some l \<Rightarrow> l | None \<Rightarrow> c)"

definition toUpperCase :: "string \<Rightarrow> string" where
  "toUpperCase s = map upperChar s"

definition toLowerCase :: "string \<Rightarrow> string" where
  "toLowerCase s = map lowerChar s"

text \<open>\<^verbatim>\<open>s.includes(t)\<close>: \<open>t\<close> occurs in \<open>s\<close> as a contiguous run.\<close>

definition includesStr :: "string \<Rightarrow> string \<Rightarrow> bool" where
  "includesStr s t \<longleftrightarrow> sublist t s"

text \<open>Truthiness of a string-valued field: present and not the empty string.\<close>

fun truthy :: "string option \<Rightarrow> bool" where
  "truthy None = False"
| "truthy (Some s) = (s \<noteq> [])"

section \<open>The family classifier\<close>

text \<open>\<^verbatim>\<open>getWineFamily(wineType)\<close>, main.js lines 1389 to 1423.\<close>

definition getWineFamily :: "string option \<Rightarrow> string" where
  "getWineFamily wineType =
     (if \<not> truthy wineType then ''ROSSO''
      else case wineType of
        None \<Rightarrow> ''ROSSO''
      | Some wt \<Rightarrow>
         (let type = toUpperCase wt in
          if includesStr type ''BOLLICINE'' then ''BOLLICINE''
          else if includesStr type ''NON ALCOLICO'' \<or> includesStr type ''NON-ALCOHOLIC''
                  \<or> includesStr type ''0.0'' then ''NON ALCOLICO''
          else if includesStr type ''ROSATO'' then ''ROSATO''
          else if includesStr type ''ARANCIONE'' then ''ARANCIONE''
          else if includesStr type ''BIANCO'' then ''BIANCO''
          else if includesStr type ''ROSSO'' \<or> includesStr type ''AMARONE''
                  \<or> includesStr type ''BAROLO'' \<or> includesStr type ''SUPERTUSCAN''
                  \<or> includesStr type ''SUPERIORE'' \<or> includesStr type ''RIPASSO'' then ''ROSSO''
          else ''ROSSO''))"

section \<open>The region normalizer\<close>

text \<open>
  \<^verbatim>\<open>normalizeRegionName\<close> (main.js lines 1505 to 1544) looks its argument up in the
  object literal \<^verbatim>\<open>regionMap\<close> with \<^verbatim>\<open>regionMap[regionName]\<close>. A property
  read on an object literal finds the literal's own properties first and then the
  properties the literal inherits from \<^verbatim>\<open>Object.prototype\<close>, so the value read is
  either a string of the table or one of the built-in objects of the runtime. A value
  is therefore a string or a built-in, named by the property under which
  \<^verbatim>\<open>Object.prototype\<close> holds it.
\<close>

datatype jsval = Str string | Builtin string

text \<open>The own properties of \<^verbatim>\<open>regionMap\<close>, in the order of the literal.\<close>

definition regionMap :: "(string \<times> string) list" where
  "regionMap =
    [(''FRIULI-VENEZIA GIULIA'', ''FRIULI-VENEZIA GIULIA''),
     (''FRIULI VENEZIA GIULIA'', ''FRIULI-VENEZIA GIULIA''),
     (''FRIULI VENEZIA'', ''FRIULI-VENEZIA GIULIA''),
     (''FRIULI'', ''FRIULI-VENEZIA GIULIA''),
     (''LE MARCHE'', ''LE MARCHE''),
     (''MARCHE'', ''LE MARCHE''),
     (''TRENTINO ALTO-ADIGE'', ''TRENTINO ALTO-ADIGE''),
     (''TRENTINO'', ''TRENTINO ALTO-ADIGE''),
     (''ALTO ADIGE'', ''TRENTINO ALTO-ADIGE''),
     (''VALLE D'' @ [CHR 0x27] @ ''AOSTA'', ''VALLE D'' @ [CHR 0x27] @ ''AOSTA''),
     (''AOSTA'', ''VALLE D'' @ [CHR 0x27] @ ''AOSTA''),
     (''TOSCANA'', ''TOSCANA''),
     (''TOSCANA (BOLGHERI)'', ''TOSCANA''),
     (''SICILIA'', ''SICILIA''),
     (''PIEMONTE'', ''PIEMONTE''),
     (''VENETO'', ''VENETO''),
     (''LUGANA DOC (VENETO)'', ''VENETO''),
     (''LOMBARDIA'', ''LOMBARDIA''),
     (''EMILIA-ROMAGNA'', ''EMILIA-ROMAGNA''),
     (''LAZIO'', ''LAZIO''),
     (''CAMPANIA'', ''CAMPANIA''),
     (''PUGLIA'', ''PUGLIA''),
     (''TARANTO IGT (PUGLIA)'', ''PUGLIA''),
     (''CALABRIA'', ''CALABRIA''),
     (''BASILICATA'', ''BASILICATA''),
     (''MATERA DOC (BASILICATA)'', ''BASILICATA''),
     (''MOLISE'', ''MOLISE''),
     (''ABRUZZO'', ''ABRUZZO''),
     (''UMBRIA'', ''UMBRIA''),
     (''SARDEGNA'', ''SARDEGNA''),
     (''LIGURIA'', ''LIGURIA'')]"

text \<open>
  The property names of \<^verbatim>\<open>Object.prototype\<close> in a browser (ECMAScript, with the
  legacy accessors of its annex B).
\<close>

definition objectPrototype :: "string list" where
  "objectPrototype =
    [''constructor'', ''hasOwnProperty'', ''isPrototypeOf'', ''propertyIsEnumerable'',
     ''toLocaleString'', ''toString'', ''valueOf'', ''__proto__'',
     ''__defineGetter__'', ''__defineSetter__'', ''__lookupGetter__'', ''__lookupSetter__'']"

text \<open>
  The string a value turns into where the program uses it as a property key, a sort key
  or a piece of a template literal. \<^verbatim>\<open>Object.prototype\<close> itself (read through
  \<^verbatim>\<open>__proto__\<close>) prints as \<^verbatim>\<open>[object Object]\<close>; the others are native functions,
  \<^verbatim>\<open>constructor\<close> being the function \<^verbatim>\<open>Object\<close>.
\<close>

fun toStringJs :: "jsval \<Rightarrow> string" where
  "toStringJs (Str s) = s"
| "toStringJs (Builtin p) =
     (if p = ''__proto__'' then ''[object Object]''
      else ''function '' @ (if p = ''constructor'' then ''Object'' else p)
             @ ''() { [native code] }'')"

fun truthyVal :: "jsval \<Rightarrow> bool" where
  "truthyVal (Str s) = (s \<noteq> [])"
| "truthyVal (Builtin p) = True"

text \<open>\<^verbatim>\<open>regionMap[key]\<close>: \<open>None\<close> is \<^verbatim>\<open>undefined\<close>.\<close>

definition regionMapGet :: "string \<Rightarrow> jsval option" where
  "regionMapGet key =
     (case map_of regionMap key of
        Some v \<Rightarrow> Some (Str v)
      | None \<Rightarrow> if key \<in> set objectPrototype then Some (Builtin key) else None)"

definition normalizeRegionName :: "jsval option \<Rightarrow> jsval" where
  "normalizeRegionName regionName =
     (case regionName of
        None \<Rightarrow> Str []
      | Some v \<Rightarrow>
          if \<not> truthyVal v then Str []
          else (case regionMapGet (toStringJs v) of
                  Some r \<Rightarrow> if truthyVal r then r else v
                | None \<Rightarrow> v))"

text \<open>The normalizer applied to a string-valued field of a wine.\<close>

definition normalizeField :: "string option \<Rightarrow> jsval" where
  "normalizeField f = normalizeRegionName (map_option Str f)"

section \<open>Wine records and the validity filter\<close>

record wine =
  wine_name :: "string option"
  wine_producer :: "string option"
  wine_type :: "string option"
  region :: "string option"
  wine_vintage :: "string option"
  wine_price :: "string option"
  wine_price_bottle :: "string option"
  wine_price_glass :: "string option"
  varietals :: "string option"

text \<open>\<^verbatim>\<open>wineMatchesFamily(wine, targetFamily)\<close>, main.js lines 1426 to 1429.\<close>

definition wineMatchesFamily :: "wine \<Rightarrow> string \<Rightarrow> bool" where
  "wineMatchesFamily w targetFamily \<longleftrightarrow> getWineFamily (wine_type w) = targetFamily"

text \<open>\<^verbatim>\<open>loadWineData\<close>, main.js lines 38 to 61.\<close>

definition validRegions :: "string list" where
  "validRegions =
    [''SICILIA'', ''PIEMONTE'', ''TOSCANA'', ''VENETO'', ''LOMBARDIA'', ''EMILIA-ROMAGNA'',
     ''LAZIO'', ''CAMPANIA'', ''PUGLIA'', ''CALABRIA'', ''BASILICATA'', ''MOLISE'',
     ''ABRUZZO'', ''UMBRIA'', ''LE MARCHE'', ''FRIULI-VENEZIA GIULIA'', ''FRIULI'',
     ''TRENTINO ALTO-ADIGE'', ''VALLE D'' @ [CHR 0x27] @ ''AOSTA'', ''LIGURIA'', ''SARDEGNA'',
     ''TOSCANA (BOLGHERI)'', ''LUGANA DOC (VENETO)'', ''TARANTO IGT (PUGLIA)'',
     ''MATERA DOC (BASILICATA)'']"

definition hasValidRegion :: "wine \<Rightarrow> bool" where
  "hasValidRegion w \<longleftrightarrow>
     truthy (region w) \<and> (case region w of None \<Rightarrow> False | Some r \<Rightarrow> r \<in> set validRegions)"

definition hasValidName :: "wine \<Rightarrow> bool" where
  "hasValidName w \<longleftrightarrow>
     truthy (wine_name w) \<and> wine_name w \<noteq> Some ''WINE NAME''
     \<and> wine_name w \<noteq> Some ''WINE PRICE'' \<and> wine_name w \<noteq> Some ''VINTAGE''"

definition hasValidProducer :: "wine \<Rightarrow> bool" where
  "hasValidProducer w \<longleftrightarrow>
     truthy (wine_producer w) \<and> wine_producer w \<noteq> Some ''UNKNOWN PRODUCER''"

definition hasValidPrice :: "wine \<Rightarrow> bool" where
  "hasValidPrice w \<longleftrightarrow>
     (truthy (wine_price w) \<and> wine_price w \<noteq> Some ''0'')
     \<or> (truthy (wine_price_bottle w) \<and> wine_price_bottle w \<noteq> Some ''0'')
     \<or> (truthy (wine_price_glass w) \<and> wine_price_glass w \<noteq> Some ''0'')"

definition isNotSangriaOrCocktail :: "wine \<Rightarrow> bool" where
  "isNotSangriaOrCocktail w \<longleftrightarrow>
     truthy (wine_type w)
     \<and> (case wine_type w of
          None \<Rightarrow> False
        | Some t \<Rightarrow> \<not> includesStr (toUpperCase t) ''SANGRIA''
                    \<and> \<not> includesStr (toUpperCase t) ''COCKTAIL'')"

definition keepWine :: "wine \<Rightarrow> bool" where
  "keepWine w \<longleftrightarrow>
     hasValidRegion w \<and> hasValidName w \<and> hasValidProducer w \<and> hasValidPrice w
     \<and> isNotSangriaOrCocktail w"

text \<open>
  The argument is the \<^verbatim>\<open>wines\<close> field of the fetched document, \<open>None\<close> when the
  document has none (\<^verbatim>\<open>data.wines || []\<close>).
\<close>

definition loadWineData :: "wine list option \<Rightarrow> wine list" where
  "loadWineData dataWines =
     filter keepWine (case dataWines of None \<Rightarrow> [] | Some ws \<Rightarrow> ws)"

section \<open>The application state and its pages\<close>

text \<open>
  The fields of \<^verbatim>\<open>WineListApp\<close> that the pages read and write.
  \<^verbatim>\<open>currentFilters.type\<close> and \<^verbatim>\<open>currentFilters.region\<close> start as
  \<^verbatim>\<open>null\<close>, \<^verbatim>\<open>currentFilters.search\<close> is always a string, and
  \<^verbatim>\<open>allRegions\<close> is unset until the regions page has been rendered.
\<close>

datatype error = TypeError

record filters =
  filter_type :: "string option"
  filter_region :: "string option"
  filter_search :: string

record app =
  wines :: "wine list"
  filteredWines :: "wine list"
  currentFilters :: filters
  allRegions :: "jsval list option"

text \<open>
  \<^verbatim>\<open>!this.currentFilters.type || this.wineMatchesFamily(wine, this.currentFilters.type)\<close>,
  the constant \<^verbatim>\<open>matchesType\<close> of \<^verbatim>\<open>renderWinesPage\<close> and of
  \<^verbatim>\<open>applyFilters\<close>.
\<close>

definition matchesType :: "string option \<Rightarrow> wine \<Rightarrow> bool" where
  "matchesType ty w \<longleftrightarrow>
     \<not> truthy ty \<or> (case ty of None \<Rightarrow> False | Some t \<Rightarrow> wineMatchesFamily w t)"

text \<open>\<^verbatim>\<open>s.trim()\<close> on ASCII white space and line terminators.\<close>

definition isSpace :: "char \<Rightarrow> bool" where
  "isSpace c \<longleftrightarrow> c \<in> set [CHR 0x09, CHR 0x0A, CHR 0x0B, CHR 0x0C, CHR 0x0D, CHR '' '']"

definition trim :: "string \<Rightarrow> string" where
  "trim s = rev (dropWhile isSpace (rev (dropWhile isSpace s)))"

definition hasRegionText :: "wine \<Rightarrow> bool" where
  "hasRegionText w \<longleftrightarrow>
     truthy (region w) \<and> (case region w of None \<Rightarrow> False | Some r \<Rightarrow> trim r \<noteq> [])"

text \<open>\<^verbatim>\<open>Set.prototype.add\<close>: a set keeps its members in the order of first insertion.\<close>

definition setAdd :: "'a list \<Rightarrow> 'a \<Rightarrow> 'a list" where
  "setAdd xs x = (if x \<in> set xs then xs else xs @ [x])"

text \<open>
  \<^verbatim>\<open>renderRegionsPage\<close>, main.js lines 220 to 235: the regions of the wines of the
  current type, normalized, without duplicates, sorted by \<^verbatim>\<open>Array.prototype.sort\<close>
  (a stable sort on the string of each member). The page is taken to hold the elements
  the functions look for. \<^verbatim>\<open>renderRegionsPage\<close> ends by calling
  \<^verbatim>\<open>filterRegions\<close>; the two steps are composed where the cards are needed.
\<close>

definition winesToUse :: "app \<Rightarrow> wine list" where
  "winesToUse st =
     (case filter_type (currentFilters st) of
        None \<Rightarrow> wines st
      | Some t \<Rightarrow> if t \<noteq> [] then filter (\<lambda>w. wineMatchesFamily w t) (wines st) else wines st)"

definition regionSet :: "app \<Rightarrow> jsval list" where
  "regionSet st =
     foldl setAdd [] (map (\<lambda>w. normalizeField (region w)) (filter hasRegionText (winesToUse st)))"

definition renderRegionsPage :: "app \<Rightarrow> app" where
  "renderRegionsPage st = st\<lparr>allRegions := Some (sort_key toStringJs (regionSet st))\<rparr>"

text \<open>
  \<^verbatim>\<open>filterRegions\<close>, main.js lines 289 to 339. A region card shows the normalized
  region and a count, and links to the wines page with the normalized region and the
  current type as parameters.
\<close>

record card =
  card_region :: string
  card_type :: "string option"
  card_count :: nat

fun filterE :: "('a \<Rightarrow> error + bool) \<Rightarrow> 'a list \<Rightarrow> error + 'a list" where
  "filterE p [] = Inr []"
| "filterE p (x # xs) =
     (case p x of
        Inl e \<Rightarrow> Inl e
      | Inr b \<Rightarrow> (case filterE p xs of
                    Inl e \<Rightarrow> Inl e
                  | Inr ys \<Rightarrow> Inr (if b then x # ys else ys)))"

text \<open>
  \<^verbatim>\<open>!this.currentFilters.search || region.toLowerCase().includes(...)\<close>: a built-in
  object has no \<^verbatim>\<open>toLowerCase\<close>, and calling it throws.
\<close>

fun regionMatchesSearch :: "string \<Rightarrow> jsval \<Rightarrow> error + bool" where
  "regionMatchesSearch search (Str r) =
     Inr (search = [] \<or> includesStr (toLowerCase r) search)"
| "regionMatchesSearch search (Builtin p) =
     (if search = [] then Inr True else Inl TypeError)"

definition regionCount :: "app \<Rightarrow> jsval \<Rightarrow> nat" where
  "regionCount st reg =
     (let count = length (filter (\<lambda>w. normalizeField (region w) = normalizeRegionName (Some reg))
                            (wines st))
      in if truthy (filter_type (currentFilters st))
         then length (filter (\<lambda>w. normalizeField (region w) = normalizeRegionName (Some reg)
                                   \<and> (case filter_type (currentFilters st) of
                                        None \<Rightarrow> False
                                      | Some t \<Rightarrow> wineMatchesFamily w t))
                        (wines st))
         else count)"

definition regionCard :: "app \<Rightarrow> jsval \<Rightarrow> card" where
  "regionCard st reg =
     \<lparr>card_region = toStringJs (normalizeRegionName (Some reg)),
      card_type = (if truthy (filter_type (currentFilters st))
                   then filter_type (currentFilters st) else None),
      card_count = regionCount st reg\<rparr>"

text \<open>The result is \<open>Inr None\<close> when nothing is rendered.\<close>

definition filterRegions :: "app \<Rightarrow> error + card list option" where
  "filterRegions st =
     (case allRegions st of
        None \<Rightarrow> Inr None
      | Some regions \<Rightarrow>
          (case filterE (regionMatchesSearch (filter_search (currentFilters st))) regions of
             Inl e \<Rightarrow> Inl e
           | Inr filteredRegions \<Rightarrow> Inr (Some (map (regionCard st) filteredRegions))))"

text \<open>\<^verbatim>\<open>renderWinesPage\<close>, main.js lines 410 to 431.\<close>

definition renderWinesPage :: "app \<Rightarrow> app" where
  "renderWinesPage st =
     (if \<not> truthy (filter_region (currentFilters st)) then st
      else st\<lparr>filteredWines :=
             filter (\<lambda>w. normalizeField (region w) = normalizeField (filter_region (currentFilters st))
                         \<and> matchesType (filter_type (currentFilters st)) w)
                    (wines st)\<rparr>)"

text \<open>
  \<^verbatim>\<open>applyFilters\<close>, main.js lines 997 to 1010. The three constants of the callback are
  computed for every wine; \<^verbatim>\<open>wine.wine_name.toLowerCase()\<close> and
  \<^verbatim>\<open>wine.region.toLowerCase()\<close> throw on a missing field.
\<close>

definition matchesRegion :: "string option \<Rightarrow> wine \<Rightarrow> bool" where
  "matchesRegion fr w \<longleftrightarrow> \<not> truthy fr \<or> region w = fr"

definition matchesSearch :: "string \<Rightarrow> wine \<Rightarrow> error + bool" where
  "matchesSearch search w =
     (if search = [] then Inr True
      else (case wine_name w of
              None \<Rightarrow> Inl TypeError
            | Some n \<Rightarrow>
                if includesStr (toLowerCase n) search then Inr True
                else (case region w of
                        None \<Rightarrow> Inl TypeError
                      | Some r \<Rightarrow>
                          if includesStr (toLowerCase r) search then Inr True
                          else Inr (truthy (varietals w)
                                    \<and> (case varietals w of
                                         None \<Rightarrow> False
                                       | Some v \<Rightarrow> includesStr (toLowerCase v) search)))))"

definition filterCallback :: "filters \<Rightarrow> wine \<Rightarrow> error + bool" where
  "filterCallback cf w =
     (case matchesSearch (filter_search cf) w of
        Inl e \<Rightarrow> Inl e
      | Inr ms \<Rightarrow> Inr (matchesType (filter_type cf) w \<and> matchesRegion (filter_region cf) w \<and> ms))"

definition applyFilters :: "app \<Rightarrow> error + app" where
  "applyFilters st =
     (case filterE (filterCallback (currentFilters st)) (wines st) of
        Inl e \<Rightarrow> Inl e
      | Inr ws \<Rightarrow> Inr (st\<lparr>filteredWines := ws\<rparr>))"

text \<open>\<^verbatim>\<open>showRegionFilter\<close>, main.js lines 1096 to 1102: the options of the region filter.\<close>

definition showRegionFilter :: "app \<Rightarrow> string list" where
  "showRegionFilter st =
     sort (foldl setAdd [] (map (\<lambda>w. case region w of None \<Rightarrow> [] | Some r \<Rightarrow> r)
                                (filter hasRegionText (wines st))))"

section \<open>Year extraction\<close>

text \<open>
  \<^verbatim>\<open>extractYear\<close>, main.js lines 1773 to 1777, matches the regular expression
  \<^verbatim>\<open>/\b(19|20)\d{2}\b/\<close>. A word character is an ASCII letter, a digit or the
  underscore; \<^verbatim>\<open>\b\<close> holds between a word character and a character that is none
  (or an end of the string). The match starts with a digit, so the boundary before it
  asks for no word character on its left, and the boundary after it for none on its
  right. \<^verbatim>\<open>match\<close> returns the leftmost match.
\<close>

definition isDigit :: "char \<Rightarrow> bool" where
  "isDigit c \<longleftrightarrow> c \<in> set digits"

definition isWordChar :: "char \<Rightarrow> bool" where
  "isWordChar c \<longleftrightarrow> c \<in> set (lowerLetters @ upperLetters @ digits @ ''_'')"

text \<open>\<^verbatim>\<open>(19|20)\d{2}\b\<close> at the head of a string.\<close>

definition yearHere :: "string \<Rightarrow> bool" where
  "yearHere s =
     (case s of
        a # b # c # d # rest \<Rightarrow>
          ([a, b] = ''19'' \<or> [a, b] = ''20'') \<and> isDigit c \<and> isDigit d
          \<and> (case rest of [] \<Rightarrow> True | e # _ \<Rightarrow> \<not> isWordChar e)
      | _ \<Rightarrow> False)"

text \<open>The scan, with whether the character before the position is a word character.\<close>

fun yearScan :: "bool \<Rightarrow> string \<Rightarrow> string option" where
  "yearScan prevWord [] = None"
| "yearScan prevWord (c # cs) =
     (if \<not> prevWord \<and> yearHere (c # cs) then Some (take 4 (c # cs))
      else yearScan (isWordChar c) cs)"

definition extractYear :: "string option \<Rightarrow> string" where
  "extractYear vintage =
     (if \<not> truthy vintage then ''N/A''
      else (case vintage of
              None \<Rightarrow> ''N/A''
            | Some v \<Rightarrow> (case yearScan False v of Some y \<Rightarrow> y | None \<Rightarrow> ''N/A'')))"

section \<open>The specification's own formulations\<close>

subsection \<open>The classifier as a priority list\<close>

text \<open>
  The classifier in the words of the specification: the rules in their priority order,
  each a list of substrings and the family they select; the first rule with a substring
  that occurs in the upper-cased type decides, and \<open>ROSSO\<close> is the fallback.
\<close>

definition familyRules :: "(string list \<times> string) list" where
  "familyRules =
    [([''BOLLICINE''], ''BOLLICINE''),
     ([''NON ALCOLICO'', ''NON-ALCOHOLIC'', ''0.0''], ''NON ALCOLICO''),
     ([''ROSATO''], ''ROSATO''),
     ([''ARANCIONE''], ''ARANCIONE''),
     ([''BIANCO''], ''BIANCO''),
     ([''ROSSO'', ''AMARONE'', ''BAROLO'', ''SUPERTUSCAN'', ''SUPERIORE'', ''RIPASSO''],
      ''ROSSO'')]"

fun firstMatch :: "(string list \<times> string) list \<Rightarrow> string \<Rightarrow> string" where
  "firstMatch [] u = ''ROSSO''"
| "firstMatch ((pats, fam) # rules) u =
     (if list_ex (includesStr u) pats then fam else firstMatch rules u)"

definition classify :: "string option \<Rightarrow> string" where
  "classify rawType =
     (case rawType of
        None \<Rightarrow> ''ROSSO''
      | Some s \<Rightarrow> if s = [] then ''ROSSO'' else firstMatch familyRules (toUpperCase s))"

definition wineFamilies :: "string list" where
  "wineFamilies = [''ROSSO'', ''BIANCO'', ''ROSATO'', ''ARANCIONE'', ''BOLLICINE'', ''NON ALCOLICO'']"

subsection \<open>The ValidWine invariant\<close>

text \<open>
  The canonical region names are the values of the normalizer's table.
\<close>

definition canonicalRegions :: "string list" where
  "canonicalRegions = remdups (map snd regionMap)"

text \<open>A field is present with a property: it is there, not empty, and has the property.\<close>

definition presentAnd :: "string option \<Rightarrow> (string \<Rightarrow> bool) \<Rightarrow> bool" where
  "presentAnd f P \<longleftrightarrow> (case f of None \<Rightarrow> False | Some s \<Rightarrow> s \<noteq> [] \<and> P s)"

definition priceFields :: "wine \<Rightarrow> string option list" where
  "priceFields w = [wine_price w, wine_price_bottle w, wine_price_glass w]"

text \<open>
  The invariant as the specification words it: the name is present and no placeholder,
  the producer is present and not the unknown producer, one of the three prices is
  present and not \<open>0\<close>, the normalized region is a canonical region, and the wine type
  does not contain \<open>SANGRIA\<close> or \<open>COCKTAIL\<close> in any letter case.
\<close>

definition validWineSpec :: "wine \<Rightarrow> bool" where
  "validWineSpec w \<longleftrightarrow>
     presentAnd (wine_name w) (\<lambda>n. n \<notin> set [''WINE NAME'', ''WINE PRICE'', ''VINTAGE''])
     \<and> presentAnd (wine_producer w) (\<lambda>p. p \<noteq> ''UNKNOWN PRODUCER'')
     \<and> list_ex (\<lambda>f. presentAnd f (\<lambda>v. v \<noteq> ''0'')) (priceFields w)
     \<and> normalizeField (region w) \<in> set (map Str canonicalRegions)
     \<and> (case wine_type w of
          None \<Rightarrow> True
        | Some t \<Rightarrow> \<not> includesStr (toUpperCase t) ''SANGRIA''
                    \<and> \<not> includesStr (toUpperCase t) ''COCKTAIL'')"

text \<open>
  The invariant with two clauses changed: the region as it is written in the record
  is one of the accepted spellings \<open>validRegions\<close>, and the wine type is present.
\<close>

definition validWineAmended :: "wine \<Rightarrow> bool" where
  "validWineAmended w \<longleftrightarrow>
     presentAnd (wine_name w) (\<lambda>n. n \<notin> set [''WINE NAME'', ''WINE PRICE'', ''VINTAGE''])
     \<and> presentAnd (wine_producer w) (\<lambda>p. p \<noteq> ''UNKNOWN PRODUCER'')
     \<and> list_ex (\<lambda>f. presentAnd f (\<lambda>v. v \<noteq> ''0'')) (priceFields w)
     \<and> presentAnd (region w) (\<lambda>r. r \<in> set validRegions)
     \<and> presentAnd (wine_type w) (\<lambda>t. \<not> includesStr (toUpperCase t) ''SANGRIA''
                                      \<and> \<not> includesStr (toUpperCase t) ''COCKTAIL'')"

subsection \<open>Sample records\<close>

definition barolo :: wine where
  "barolo =
    \<lparr>wine_name = Some ''Barolo Riserva'', wine_producer = Some ''Cantina Rossa'',
     wine_type = Some ''ROSSO SUPERIORE'', region = Some ''PIEMONTE'',
     wine_vintage = Some ''Vintage 2018 Reserve'', wine_price = Some ''85'',
     wine_price_bottle = None, wine_price_glass = None, varietals = Some ''Nebbiolo''\<rparr>"

definition verdicchio :: wine where
  "verdicchio = barolo\<lparr>wine_name := Some ''Verdicchio'', wine_type := Some ''BIANCO'',
     region := Some ''MARCHE'', varietals := None\<rparr>"

definition untyped :: wine where
  "untyped = barolo\<lparr>wine_name := Some ''Vino della Casa'', wine_type := None\<rparr>"

subsection \<open>Year extraction\<close>

text \<open>A year: four characters, \<open>19\<close> or \<open>20\<close> and two digits.\<close>

definition isYear :: "string \<Rightarrow> bool" where
  "isYear y \<longleftrightarrow>
     (case y of
        [a, b, c, d] \<Rightarrow> ([a, b] = ''19'' \<or> [a, b] = ''20'') \<and> isDigit c \<and> isDigit d
      | _ \<Rightarrow> False)"

text \<open>
  Year extraction as the specification words it: the first year that occurs anywhere in
  the vintage, \<open>N/A\<close> when there is none or the vintage is absent.
\<close>

fun firstYear :: "string \<Rightarrow> string option" where
  "firstYear [] = None"
| "firstYear (c # cs) =
     (if isYear (take 4 (c # cs)) then Some (take 4 (c # cs)) else firstYear cs)"

definition extractYearSpec :: "string option \<Rightarrow> string" where
  "extractYearSpec vintage =
     (case vintage of
        None \<Rightarrow> ''N/A''
      | Some v \<Rightarrow> (case firstYear v of Some y \<Rightarrow> y | None \<Rightarrow> ''N/A''))"

text \<open>
  A year stands at position \<open>i\<close> of \<open>v\<close> as a word of its own: the four characters
  from \<open>i\<close> are a year, no word character stands before them and none after them.
\<close>

definition yearAt :: "string \<Rightarrow> nat \<Rightarrow> bool" where
  "yearAt v i \<longleftrightarrow>
     i + 4 \<le> length v \<and> isYear (take 4 (drop i v))
     \<and> (i = 0 \<or> \<not> isWordChar (v ! (i - 1)))
     \<and> (i + 4 = length v \<or> \<not> isWordChar (v ! (i + 4)))"

definition firstYearAt :: "string \<Rightarrow> nat \<Rightarrow> bool" where
  "firstYearAt v i \<longleftrightarrow> yearAt v i \<and> (\<forall>j < i. \<not> yearAt v j)"

subsection \<open>The matching rule of the query engine\<close>

text \<open>
  A criterion of the filter is absent when it is \<^verbatim>\<open>null\<close> or the empty string. The
  matching rule as the specification words it: the family criterion is absent or the
  wine is of that family; the region criterion is absent or the normalized region of the
  wine is the normalized criterion; the search is empty or occurs, letter case aside, in
  the name, the region or the varietals, absent varietals counting as the empty string.
\<close>

definition familyMatches :: "wine \<Rightarrow> string \<Rightarrow> bool" where
  "familyMatches w family \<longleftrightarrow> classify (wine_type w) = family"

definition fieldText :: "string option \<Rightarrow> string" where
  "fieldText f = (case f of None \<Rightarrow> [] | Some s \<Rightarrow> s)"

definition specMatches :: "filters \<Rightarrow> wine \<Rightarrow> bool" where
  "specMatches spec w \<longleftrightarrow>
     (case filter_type spec of
        None \<Rightarrow> True
      | Some family \<Rightarrow> family = [] \<or> familyMatches w family)
     \<and> (case filter_region spec of
          None \<Rightarrow> True
        | Some r \<Rightarrow> r = [] \<or> normalizeField (region w) = normalizeField (Some r))
     \<and> (filter_search spec = []
          \<or> list_ex (\<lambda>f. includesStr (toLowerCase (fieldText f)) (filter_search spec))
               [wine_name w, region w, varietals w])"

text \<open>What \<^verbatim>\<open>applyFilters\<close> keeps: the same rule with the regions compared as written.\<close>

definition rawMatches :: "filters \<Rightarrow> wine \<Rightarrow> bool" where
  "rawMatches spec w \<longleftrightarrow>
     (case filter_type spec of
        None \<Rightarrow> True
      | Some family \<Rightarrow> family = [] \<or> familyMatches w family)
     \<and> (case filter_region spec of
          None \<Rightarrow> True
        | Some r \<Rightarrow> r = [] \<or> region w = Some r)
     \<and> (filter_search spec = []
          \<or> list_ex (\<lambda>f. includesStr (toLowerCase (fieldText f)) (filter_search spec))
               [wine_name w, region w, varietals w])"

text \<open>
  The wines page that the link of a region card opens: a fresh application on the same
  wines, with the type of the link when it is not empty, and the region of the link.
\<close>

definition openCard :: "app \<Rightarrow> card \<Rightarrow> app" where
  "openCard st c =
     \<lparr>wines = wines st, filteredWines = wines st,
      currentFilters =
        \<lparr>filter_type = (if truthy (card_type c) then card_type c else None),
         filter_region = (if card_region c \<noteq> [] then Some (card_region c) else None),
         filter_search = []\<rparr>,
      allRegions = None\<rparr>"

subsection \<open>Sample states\<close>

definition friulano :: wine where
  "friulano = barolo\<lparr>wine_name := Some ''Friulano'', wine_type := Some ''BIANCO'',
     region := Some ''FRIULI'', varietals := None\<rparr>"

definition ribolla :: wine where
  "ribolla = barolo\<lparr>wine_name := Some ''Ribolla Gialla'', wine_type := Some ''BIANCO'',
     region := Some ''FRIULI-VENEZIA GIULIA'', varietals := Some ''Ribolla''\<rparr>"

definition cellar :: app where
  "cellar =
     \<lparr>wines = [barolo, friulano, ribolla], filteredWines = [barolo, friulano, ribolla],
      currentFilters = \<lparr>filter_type = None, filter_region = None, filter_search = []\<rparr>,
      allRegions = None\<rparr>"

text \<open>
  The wines page of the region \<open>FRIULI-VENEZIA GIULIA\<close>, after the visitor has typed
  \<open>friulano\<close> into the search field.
\<close>

definition friuliSearch :: app where
  "friuliSearch =
     cellar\<lparr>currentFilters :=
       \<lparr>filter_type = None, filter_region = Some ''FRIULI-VENEZIA GIULIA'',
        filter_search = ''friulano''\<rparr>\<rparr>"

section \<open>The family classifier follows the priority list\<close>

lemma getWineFamily_classify: "getWineFamily t = classify t"
proof (cases t)
  case None
  then show ?thesis by (simp add: getWineFamily_def classify_def)
next
  case (Some s)
  then show ?thesis
    by (simp add: getWineFamily_def classify_def familyRules_def Let_def)
qed

lemma firstMatch_families:
  "\<forall>r \<in> set rules. snd r \<in> set wineFamilies \<Longrightarrow> firstMatch rules u \<in> set wineFamilies"
  by (induction rules u rule: firstMatch.induct) (auto simp: wineFamilies_def)

lemma classify_families: "classify t \<in> set wineFamilies"
proof (cases t)
  case None
  then show ?thesis by (simp add: classify_def wineFamilies_def)
next
  case (Some s)
  have "firstMatch familyRules (toUpperCase s) \<in> set wineFamilies"
    by (rule firstMatch_families) (simp add: familyRules_def wineFamilies_def)
  with Some show ?thesis by (simp add: classify_def wineFamilies_def)
qed

lemma includesStr_BOLLICINE_ROSSO: "includesStr ''BOLLICINE ROSSO'' ''BOLLICINE''"
  by (simp add: includesStr_def sublist_Cons_right)

text \<open>
  C3. The family classifier is total into the six families. It returns \<open>ROSSO\<close> for an
  absent or empty type, and otherwise the family of the first rule of the priority list
  (BOLLICINE; NON ALCOLICO, NON-ALCOHOLIC or 0.0; ROSATO; ARANCIONE; BIANCO; ROSSO,
  AMARONE, BAROLO, SUPERTUSCAN, SUPERIORE or RIPASSO) whose substring occurs in the
  upper-cased type, \<open>ROSSO\<close> when none does. The type \<open>BOLLICINE ROSSO\<close> is classified
  as \<open>BOLLICINE\<close>.
\<close>

theorem getWineFamily_priority:
  "getWineFamily t \<in> set wineFamilies
   \<and> getWineFamily t = classify t
   \<and> getWineFamily None = ''ROSSO''
   \<and> getWineFamily (Some []) = ''ROSSO''
   \<and> getWineFamily (Some ''BOLLICINE ROSSO'') = ''BOLLICINE''"
proof -
  have a: "getWineFamily t \<in> set wineFamilies"
    by (simp only: getWineFamily_classify classify_families)
  have b: "getWineFamily None = ''ROSSO''" "getWineFamily (Some []) = ''ROSSO''"
    by (simp_all add: getWineFamily_def)
  have "toUpperCase ''BOLLICINE ROSSO'' = ''BOLLICINE ROSSO''"
    by (simp add: toUpperCase_def upperChar_def lowerLetters_def upperLetters_def)
  then have c: "getWineFamily (Some ''BOLLICINE ROSSO'') = ''BOLLICINE''"
    using includesStr_BOLLICINE_ROSSO by (simp add: getWineFamily_def)
  from a b c getWineFamily_classify show ?thesis by blast
qed

theorem getWineFamily_priority_witness:
  "getWineFamily (Some ''Amarone Superiore'') \<in> set wineFamilies
   \<and> getWineFamily (Some ''Amarone Superiore'') = classify (Some ''Amarone Superiore'')
   \<and> getWineFamily None = ''ROSSO''
   \<and> getWineFamily (Some []) = ''ROSSO''
   \<and> getWineFamily (Some ''BOLLICINE ROSSO'') = ''BOLLICINE''"
  by (rule getWineFamily_priority)

section \<open>Properties of the region normalizer\<close>

lemma regionMap_values_eval:
  "\<forall>c \<in> set (map snd regionMap). map_of regionMap c = Some c \<and> c \<noteq> []"
  by (simp add: regionMap_def)

lemma regionMap_values_fixed:
  assumes "map_of regionMap x = Some c"
  shows "map_of regionMap c = Some c \<and> c \<noteq> []"
proof -
  from assms have "(x, c) \<in> set regionMap" by (rule map_of_SomeD)
  then have "c \<in> set (map snd regionMap)" by force
  with regionMap_values_eval show ?thesis by blast
qed

lemma toStringJs_Builtin_no_property: "regionMapGet (toStringJs (Builtin p)) = None"
  by (simp add: regionMapGet_def regionMap_def objectPrototype_def)

lemma normalizeRegionName_Builtin: "normalizeRegionName (Some (Builtin p)) = Builtin p"
  by (simp add: normalizeRegionName_def toStringJs_Builtin_no_property del: toStringJs.simps)

text \<open>
  What the normalizer returns on a string: the value of the table when the string is a
  key of the table, the inherited built-in when the string names a property of
  \<^verbatim>\<open>Object.prototype\<close>, and the string itself in every other case.
\<close>

lemma normalizeRegionName_Str:
  "normalizeRegionName (Some (Str raw)) =
     (case map_of regionMap raw of
        Some c \<Rightarrow> Str c
      | None \<Rightarrow> if raw \<in> set objectPrototype then Builtin raw else Str raw)"
proof (cases "map_of regionMap raw")
  case None
  then show ?thesis
    by (auto simp: normalizeRegionName_def regionMapGet_def objectPrototype_def)
next
  case (Some c)
  have "raw \<noteq> []"
  proof
    assume "raw = []"
    with Some show False by (simp add: regionMap_def)
  qed
  with regionMap_values_fixed [OF Some] Some show ?thesis
    by (simp add: normalizeRegionName_def regionMapGet_def)
qed

lemma normalizeRegionName_synonyms:
  "normalizeRegionName (Some (Str ''FRIULI'')) = Str ''FRIULI-VENEZIA GIULIA''
   \<and> normalizeRegionName (Some (Str ''FRIULI VENEZIA GIULIA'')) = Str ''FRIULI-VENEZIA GIULIA''
   \<and> normalizeRegionName (Some (Str ''FRIULI-VENEZIA GIULIA'')) = Str ''FRIULI-VENEZIA GIULIA''"
  by (simp add: normalizeRegionName_Str regionMap_def)

lemma normalizeRegionName_idem:
  "normalizeRegionName (Some (normalizeRegionName r)) = normalizeRegionName r"
proof (cases r)
  case None
  then show ?thesis by (simp add: normalizeRegionName_def)
next
  case (Some v)
  show ?thesis
  proof (cases v)
    case (Str x)
    show ?thesis
    proof (cases "map_of regionMap x")
      case None
      with \<open>r = Some v\<close> Str show ?thesis
        by (simp add: normalizeRegionName_Str normalizeRegionName_Builtin)
    next
      case (Some c)
      from regionMap_values_fixed [OF Some] Some \<open>r = Some v\<close> Str show ?thesis
        by (simp add: normalizeRegionName_Str)
    qed
  next
    case (Builtin p)
    with Some show ?thesis by (simp add: normalizeRegionName_Builtin)
  qed
qed

text \<open>
  C4. The normalizer on the string \<open>constructor\<close>: the string is no key of the mapping
  table, and the normalizer does not return it unchanged; it returns the function that
  the table object inherits under that name.
\<close>

theorem normalizeRegionName_inherited_property:
  "map_of regionMap ''constructor'' = None
   \<and> normalizeRegionName (Some (Str ''constructor'')) = Builtin ''constructor''
   \<and> normalizeRegionName (Some (Str ''constructor'')) \<noteq> Str ''constructor''"
  by (simp add: normalizeRegionName_Str regionMap_def objectPrototype_def)

text \<open>
  C8. The region normalizer is idempotent: for every string \<open>x\<close>, normalizing the
  result of normalizing \<open>x\<close> gives the result of normalizing \<open>x\<close>.
\<close>

theorem normalizeRegionName_idempotent:
  "normalizeRegionName (Some (normalizeRegionName (Some (Str x)))) =
     normalizeRegionName (Some (Str x))"
  by (rule normalizeRegionName_idem)

section \<open>The validity filter\<close>

lemma loadWineData_one_kept: "loadWineData (Some [r]) \<noteq> [] \<longleftrightarrow> keepWine r"
  by (simp add: loadWineData_def)

lemma truthy_presentAnd: "truthy f \<and> (case f of None \<Rightarrow> False | Some s \<Rightarrow> P s) \<longleftrightarrow> presentAnd f P"
  by (cases f) (auto simp: presentAnd_def)

lemma truthy_neq_presentAnd: "truthy f \<and> f \<noteq> Some c \<longleftrightarrow> presentAnd f (\<lambda>s. s \<noteq> c)"
  by (cases f) (auto simp: presentAnd_def)

lemma keepWine_amended: "keepWine r \<longleftrightarrow> validWineAmended r"
proof -
  have n: "hasValidName r \<longleftrightarrow>
      presentAnd (wine_name r) (\<lambda>n. n \<notin> set [''WINE NAME'', ''WINE PRICE'', ''VINTAGE''])"
    by (cases "wine_name r") (auto simp: hasValidName_def presentAnd_def)
  have p: "hasValidProducer r \<longleftrightarrow> presentAnd (wine_producer r) (\<lambda>p. p \<noteq> ''UNKNOWN PRODUCER'')"
    by (simp add: hasValidProducer_def truthy_neq_presentAnd)
  have c: "hasValidPrice r \<longleftrightarrow> list_ex (\<lambda>f. presentAnd f (\<lambda>v. v \<noteq> ''0'')) (priceFields r)"
    by (simp add: hasValidPrice_def truthy_neq_presentAnd priceFields_def)
  have g: "hasValidRegion r \<longleftrightarrow> presentAnd (region r) (\<lambda>x. x \<in> set validRegions)"
    by (simp only: hasValidRegion_def truthy_presentAnd)
  have t: "isNotSangriaOrCocktail r \<longleftrightarrow>
      presentAnd (wine_type r) (\<lambda>t. \<not> includesStr (toUpperCase t) ''SANGRIA''
                                   \<and> \<not> includesStr (toUpperCase t) ''COCKTAIL'')"
    by (simp only: isNotSangriaOrCocktail_def truthy_presentAnd)
  show ?thesis
    unfolding keepWine_def validWineAmended_def n p c g t by blast
qed

lemma validRegions_in_table: "\<forall>r \<in> set validRegions. map_of regionMap r \<noteq> None"
  by (simp add: validRegions_def regionMap_def)

lemma validRegions_canonical:
  assumes "r \<in> set validRegions"
  shows "normalizeRegionName (Some (Str r)) \<in> set (map Str canonicalRegions)"
proof -
  from assms validRegions_in_table obtain c where c: "map_of regionMap r = Some c" by blast
  then have "(r, c) \<in> set regionMap" by (rule map_of_SomeD)
  then have "c \<in> set canonicalRegions" by (force simp: canonicalRegions_def)
  with c show ?thesis by (simp add: normalizeRegionName_Str)
qed

lemma validWineAmended_spec: "validWineAmended r \<Longrightarrow> validWineSpec r"
proof -
  assume a: "validWineAmended r"
  then obtain x where x: "region r = Some x" "x \<in> set validRegions"
    by (auto simp: validWineAmended_def presentAnd_def split: option.splits)
  then have "normalizeField (region r) \<in> set (map Str canonicalRegions)"
    using validRegions_canonical by (simp add: normalizeField_def)
  with a show ?thesis
    by (auto simp: validWineAmended_def validWineSpec_def presentAnd_def split: option.splits)
qed

lemma keepWine_barolo: "keepWine barolo"
  by (simp add: keepWine_amended validWineAmended_def presentAnd_def priceFields_def barolo_def
      validRegions_def toUpperCase_def upperChar_def lowerLetters_def upperLetters_def
      includesStr_def sublist_Cons_right)

text \<open>
  C2, as stated, fails in two ways. A record whose region is the spelling \<open>MARCHE\<close>
  satisfies every clause of the invariant (its region normalizes to \<open>LE MARCHE\<close>), and
  so does a record without a wine type; the validity filter drops both.
\<close>

theorem validity_filter_counterexample:
  "validWineSpec verdicchio \<and> loadWineData (Some [verdicchio]) = []
   \<and> validWineSpec untyped \<and> loadWineData (Some [untyped]) = []"
proof -
  have v: "validWineSpec verdicchio"
    by (simp add: validWineSpec_def presentAnd_def priceFields_def verdicchio_def barolo_def
        normalizeField_def normalizeRegionName_Str regionMap_def canonicalRegions_def
        toUpperCase_def upperChar_def lowerLetters_def upperLetters_def
        includesStr_def sublist_Cons_right)
  have u: "validWineSpec untyped"
    by (simp add: validWineSpec_def presentAnd_def priceFields_def untyped_def barolo_def
        normalizeField_def normalizeRegionName_Str regionMap_def canonicalRegions_def)
  have dv: "\<not> keepWine verdicchio"
    by (simp add: keepWine_def hasValidRegion_def verdicchio_def barolo_def validRegions_def)
  have du: "\<not> keepWine untyped"
    by (simp add: keepWine_def isNotSangriaOrCocktail_def untyped_def barolo_def)
  from v u dv du show ?thesis by (simp add: loadWineData_def)
qed

text \<open>
  C2, amended. The validity filter keeps the one record of a one-element list if and
  only if: the name is present and no placeholder, the producer is present and not
  \<open>UNKNOWN PRODUCER\<close>, one of the three prices is present and not \<open>0\<close>, the region as
  written in the record is one of the accepted spellings of \<open>validRegions\<close>, and the
  wine type is present, not empty, and contains neither \<open>SANGRIA\<close> nor \<open>COCKTAIL\<close>
  in any letter case. Every record that is kept satisfies the invariant of the
  specification.
\<close>

theorem loadWineData_single_iff:
  "(loadWineData (Some [r]) \<noteq> [] \<longleftrightarrow> validWineAmended r)
   \<and> (loadWineData (Some [r]) \<noteq> [] \<longrightarrow> validWineSpec r)"
  by (simp only: loadWineData_one_kept keepWine_amended) (blast intro: validWineAmended_spec)

theorem loadWineData_single_iff_witness:
  "loadWineData (Some [barolo]) \<noteq> [] \<and> validWineAmended barolo \<and> validWineSpec barolo"
proof -
  have "loadWineData (Some [barolo]) \<noteq> []"
    using keepWine_barolo by (simp add: loadWineData_def)
  with loadWineData_single_iff [of barolo] show ?thesis by blast
qed

text \<open>
  C10. A record whose wine type is absent or empty is dropped by the validity filter,
  from a one-element list and from any other document, although the classifier has a
  family for it.
\<close>

theorem loadWineData_requires_wine_type:
  assumes "wine_type r = None \<or> wine_type r = Some []"
  shows "loadWineData (Some [r]) = [] \<and> r \<notin> set (loadWineData d)
         \<and> getWineFamily (wine_type r) = ''ROSSO''"
proof -
  from assms have "\<not> truthy (wine_type r)" by auto
  then have k: "\<not> keepWine r" by (simp add: keepWine_def isNotSangriaOrCocktail_def)
  from \<open>\<not> truthy (wine_type r)\<close> have "getWineFamily (wine_type r) = ''ROSSO''"
    by (simp add: getWineFamily_def)
  with k show ?thesis by (simp add: loadWineData_def)
qed

theorem loadWineData_requires_wine_type_witness:
  "wine_type untyped = None
   \<and> loadWineData (Some [untyped]) = []
   \<and> untyped \<notin> set (loadWineData (Some [barolo, untyped]))
   \<and> getWineFamily (wine_type untyped) = ''ROSSO''"
proof -
  have t: "wine_type untyped = None" by (simp add: untyped_def barolo_def)
  then have "wine_type untyped = None \<or> wine_type untyped = Some []" by simp
  from loadWineData_requires_wine_type [OF this, of "Some [barolo, untyped]"] t
  show ?thesis by simp
qed

section \<open>Year extraction\<close>

lemma yearHere_isYear:
  "yearHere s \<longleftrightarrow> 4 \<le> length s \<and> isYear (take 4 s) \<and> (length s = 4 \<or> \<not> isWordChar (s ! 4))"
  by (auto simp: yearHere_def isYear_def split: list.splits)

lemma yearAt_here:
  "yearAt (pre @ s) (length pre) \<longleftrightarrow>
     \<not> (pre \<noteq> [] \<and> isWordChar (last pre)) \<and> yearHere s"
  by (auto simp: yearAt_def yearHere_isYear nth_append last_conv_nth)

lemma yearScan_correct:
  assumes "\<forall>j < length pre. \<not> yearAt (pre @ s) j"
    and "pw \<longleftrightarrow> pre \<noteq> [] \<and> isWordChar (last pre)"
  shows "(yearScan pw s = None \<longrightarrow> (\<forall>i. \<not> yearAt (pre @ s) i))
       \<and> (\<forall>y. yearScan pw s = Some y \<longrightarrow>
              (\<exists>i. firstYearAt (pre @ s) i \<and> y = take 4 (drop i (pre @ s))))"
  using assms
proof (induction s arbitrary: pre pw)
  case Nil
  then show ?case by (auto simp: yearAt_def)
next
  case (Cons c cs)
  show ?case
  proof (cases "\<not> pw \<and> yearHere (c # cs)")
    case True
    with Cons.prems have "yearAt (pre @ c # cs) (length pre)"
      by (simp only: yearAt_here) simp
    with Cons.prems(1) have "firstYearAt (pre @ c # cs) (length pre)"
      by (simp add: firstYearAt_def)
    with True show ?thesis by (auto simp del: take_Suc_Cons)
  next
    case False
    with Cons.prems have n: "\<not> yearAt (pre @ c # cs) (length pre)"
      by (simp only: yearAt_here) simp
    have "\<forall>j < length (pre @ [c]). \<not> yearAt ((pre @ [c]) @ cs) j"
      using Cons.prems(1) n by (auto simp: less_Suc_eq)
    moreover have "isWordChar c \<longleftrightarrow> pre @ [c] \<noteq> [] \<and> isWordChar (last (pre @ [c]))"
      by simp
    ultimately have "(yearScan (isWordChar c) cs = None \<longrightarrow> (\<forall>i. \<not> yearAt ((pre @ [c]) @ cs) i))
       \<and> (\<forall>y. yearScan (isWordChar c) cs = Some y \<longrightarrow>
              (\<exists>i. firstYearAt ((pre @ [c]) @ cs) i \<and> y = take 4 (drop i ((pre @ [c]) @ cs))))"
      by (rule Cons.IH)
    moreover from False have "yearScan pw (c # cs) = yearScan (isWordChar c) cs"
      by auto
    ultimately show ?thesis by simp
  qed
qed

lemma firstYearAt_unique: "firstYearAt v i \<Longrightarrow> firstYearAt v j \<Longrightarrow> i = j"
  by (metis firstYearAt_def linorder_neqE_nat)

lemma extractYear_first:
  assumes "firstYearAt v i"
  shows "extractYear (Some v) = take 4 (drop i v)"
proof -
  from assms have ne: "v \<noteq> []" by (auto simp: firstYearAt_def yearAt_def)
  from yearScan_correct [of "[]" v False]
  have c: "(yearScan False v = None \<longrightarrow> (\<forall>i. \<not> yearAt v i))
       \<and> (\<forall>y. yearScan False v = Some y \<longrightarrow> (\<exists>i. firstYearAt v i \<and> y = take 4 (drop i v)))"
    by simp
  with assms obtain y where y: "yearScan False v = Some y"
    by (cases "yearScan False v") (auto simp: firstYearAt_def)
  with c obtain k where "firstYearAt v k" "y = take 4 (drop k v)" by blast
  with assms firstYearAt_unique have "y = take 4 (drop i v)" by blast
  with y ne show ?thesis by (simp add: extractYear_def)
qed

lemma extractYear_none:
  assumes "\<forall>i. \<not> yearAt v i"
  shows "extractYear (Some v) = ''N/A''"
proof -
  from yearScan_correct [of "[]" v False]
  have "\<forall>y. yearScan False v = Some y \<longrightarrow> (\<exists>i. firstYearAt v i \<and> y = take 4 (drop i v))"
    by simp
  with assms have "yearScan False v = None"
    by (cases "yearScan False v") (auto simp: firstYearAt_def)
  then show ?thesis by (simp add: extractYear_def)
qed

lemma extractYear_examples:
  "extractYear (Some ''Vintage 2018 Reserve'') = ''2018''" "extractYear (Some ''NV'') = ''N/A''"
  by (simp_all add: extractYear_def yearHere_def isWordChar_def isDigit_def digits_def
      lowerLetters_def upperLetters_def)

text \<open>
  C7, as stated, fails: \<open>2018\<close> is a four-digit substring of \<open>Lot2018\<close> that begins
  with \<open>20\<close>, yet the extracted year is \<open>N/A\<close>, because a letter stands before it.
\<close>

theorem extractYear_counterexample:
  "extractYearSpec (Some ''Lot2018'') = ''2018'' \<and> extractYear (Some ''Lot2018'') = ''N/A''"
  by (simp add: extractYear_def extractYearSpec_def isYear_def yearHere_def isWordChar_def
      isDigit_def digits_def lowerLetters_def upperLetters_def)

text \<open>
  C7, amended. For every vintage string \<open>v\<close>, \<open>extractYear\<close> returns the first
  four-digit substring beginning with \<open>19\<close> or \<open>20\<close> that stands in \<open>v\<close> as a word of
  its own, that is with no letter, digit or underscore directly before it or directly
  after it, and returns \<open>N/A\<close> when no such substring occurs or the field is absent.
  The year of \<open>Vintage 2018 Reserve\<close> is \<open>2018\<close>, that of \<open>NV\<close> is \<open>N/A\<close>.
\<close>

theorem extractYear_word_bounded:
  "extractYear None = ''N/A''
   \<and> (\<forall>i. firstYearAt v i \<longrightarrow> extractYear (Some v) = take 4 (drop i v))
   \<and> ((\<forall>i. \<not> yearAt v i) \<longrightarrow> extractYear (Some v) = ''N/A'')
   \<and> extractYear (Some ''Vintage 2018 Reserve'') = ''2018''
   \<and> extractYear (Some ''NV'') = ''N/A''"
proof -
  have "extractYear None = ''N/A''" by (simp add: extractYear_def)
  with extractYear_first extractYear_none extractYear_examples show ?thesis by blast
qed

theorem extractYear_word_bounded_witness:
  "firstYearAt ''NV 2019/2020'' 3 \<and> extractYear (Some ''NV 2019/2020'') = ''2019''"
proof -
  have f: "firstYearAt ''NV 2019/2020'' 3"
    by (simp add: firstYearAt_def yearAt_def isYear_def isWordChar_def isDigit_def digits_def
        lowerLetters_def upperLetters_def numeral_3_eq_3 All_less_Suc)
  with extractYear_word_bounded [of "''NV 2019/2020''"]
  have "extractYear (Some ''NV 2019/2020'') = take 4 (drop 3 ''NV 2019/2020'')" by blast
  with f show ?thesis by simp
qed

section \<open>The query engine\<close>

lemma filterE_total:
  "\<forall>x \<in> set xs. \<exists>b. p x = Inr b \<Longrightarrow> filterE p xs = Inr (filter (\<lambda>x. p x = Inr True) xs)"
  by (induction xs) auto

lemma keepWine_fields:
  assumes "keepWine w"
  shows "\<exists>n r. wine_name w = Some n \<and> region w = Some r \<and> r \<in> set validRegions"
  using assms
  by (cases "wine_name w"; cases "region w")
     (auto simp: keepWine_def hasValidName_def hasValidRegion_def)

lemma filterCallback_total:
  assumes "keepWine w"
  shows "\<exists>b. filterCallback cf w = Inr b"
proof -
  from keepWine_fields [OF assms] obtain n r where "wine_name w = Some n" "region w = Some r"
    by blast
  then show ?thesis by (simp add: filterCallback_def matchesSearch_def)
qed

lemma applyFilters_valid:
  assumes "list_all keepWine (wines st)"
  shows "applyFilters st =
           Inr (st\<lparr>filteredWines :=
                  filter (\<lambda>w. filterCallback (currentFilters st) w = Inr True) (wines st)\<rparr>)"
proof -
  from assms have "\<forall>w \<in> set (wines st). \<exists>b. filterCallback (currentFilters st) w = Inr b"
    by (simp add: list_all_iff filterCallback_total)
  then show ?thesis by (simp add: applyFilters_def filterE_total)
qed

text \<open>On a valid wine the callback of \<^verbatim>\<open>applyFilters\<close> is the raw matching rule.\<close>

lemma filterCallback_rawMatches:
  assumes "keepWine w"
  shows "filterCallback cf w = Inr (rawMatches cf w)"
proof -
  from keepWine_fields [OF assms] obtain n r where f: "wine_name w = Some n" "region w = Some r"
    by blast
  have t: "matchesType (filter_type cf) w \<longleftrightarrow>
      (case filter_type cf of None \<Rightarrow> True | Some family \<Rightarrow> family = [] \<or> familyMatches w family)"
    by (cases "filter_type cf")
       (auto simp: matchesType_def wineMatchesFamily_def familyMatches_def getWineFamily_classify)
  have g: "matchesRegion (filter_region cf) w \<longleftrightarrow>
      (case filter_region cf of None \<Rightarrow> True | Some x \<Rightarrow> x = [] \<or> region w = Some x)"
    by (cases "filter_region cf") (auto simp: matchesRegion_def)
  have s: "matchesSearch (filter_search cf) w =
      Inr (filter_search cf = []
           \<or> list_ex (\<lambda>f. includesStr (toLowerCase (fieldText f)) (filter_search cf))
                [wine_name w, region w, varietals w])"
    using f
    by (cases "varietals w")
       (auto simp: matchesSearch_def fieldText_def includesStr_def toLowerCase_def)
  show ?thesis
    by (simp add: filterCallback_def s rawMatches_def t g)
qed

text \<open>
  C6. On every list of valid wines and with every filter, \<^verbatim>\<open>applyFilters\<close> returns;
  the wines it keeps are a subsequence of the wines of the application (no new
  element, no duplicate, the order kept), and the wines of the application are
  unchanged.
\<close>

theorem applyFilters_subsequence:
  assumes "list_all keepWine (wines st)"
  shows "\<exists>st'. applyFilters st = Inr st'
           \<and> subseq (filteredWines st') (wines st)
           \<and> wines st' = wines st
           \<and> currentFilters st' = currentFilters st"
  by (simp add: applyFilters_valid [OF assms])

lemma keepWine_samples: "keepWine barolo" "keepWine friulano" "keepWine ribolla"
  by (simp_all add: keepWine_amended validWineAmended_def presentAnd_def priceFields_def
      barolo_def friulano_def ribolla_def validRegions_def toUpperCase_def upperChar_def
      lowerLetters_def upperLetters_def includesStr_def sublist_Cons_right)

lemma cellar_valid: "list_all keepWine (wines cellar)" "list_all keepWine (wines friuliSearch)"
  by (simp_all add: cellar_def friuliSearch_def keepWine_samples)

theorem applyFilters_subsequence_witness:
  "list_all keepWine (wines friuliSearch)
   \<and> (\<exists>st'. applyFilters friuliSearch = Inr st'
         \<and> subseq (filteredWines st') (wines friuliSearch)
         \<and> wines st' = wines friuliSearch
         \<and> currentFilters st' = currentFilters friuliSearch)"
  using applyFilters_subsequence [OF cellar_valid(2)] cellar_valid(2) by blast

lemma friuliSearch_fields:
  "wines friuliSearch = [barolo, friulano, ribolla]"
  "currentFilters friuliSearch =
     \<lparr>filter_type = None, filter_region = Some ''FRIULI-VENEZIA GIULIA'',
      filter_search = ''friulano''\<rparr>"
  by (simp_all add: friuliSearch_def cellar_def)

lemma toLowerCase_samples:
  "toLowerCase ''Barolo Riserva'' = ''barolo riserva''"
  "toLowerCase ''Friulano'' = ''friulano''"
  "toLowerCase ''Ribolla Gialla'' = ''ribolla gialla''"
  "toLowerCase ''Ribolla'' = ''ribolla''"
  "toLowerCase ''Nebbiolo'' = ''nebbiolo''"
  "toLowerCase ''PIEMONTE'' = ''piemonte''"
  "toLowerCase ''FRIULI'' = ''friuli''"
  "toLowerCase ''FRIULI-VENEZIA GIULIA'' = ''friuli-venezia giulia''"
  by (simp_all add: toLowerCase_def lowerChar_def lowerLetters_def upperLetters_def)

lemma sample_regions:
  "normalizeField (Some ''PIEMONTE'') = Str ''PIEMONTE''"
  "normalizeField (Some ''FRIULI'') = Str ''FRIULI-VENEZIA GIULIA''"
  "normalizeField (Some ''FRIULI-VENEZIA GIULIA'') = Str ''FRIULI-VENEZIA GIULIA''"
  by (simp_all add: normalizeField_def normalizeRegionName_Str regionMap_def)

text \<open>
  C1. On the wines page of the region \<open>FRIULI-VENEZIA GIULIA\<close>, which
  \<^verbatim>\<open>renderWinesPage\<close> fills with the wines of the regions \<open>FRIULI\<close> and
  \<open>FRIULI-VENEZIA GIULIA\<close>, the search \<open>friulano\<close> matches the wine Friulano of the
  region \<open>FRIULI\<close> under the matching rule; \<^verbatim>\<open>applyFilters\<close> compares the regions
  as written and keeps no wine.
\<close>

theorem applyFilters_unnormalized_region:
  "list_all keepWine (wines friuliSearch)
   \<and> specMatches (currentFilters friuliSearch) friulano
   \<and> filteredWines (renderWinesPage friuliSearch) = [friulano, ribolla]
   \<and> applyFilters friuliSearch = Inr (friuliSearch\<lparr>filteredWines := []\<rparr>)"
proof -
  have s: "specMatches (currentFilters friuliSearch) friulano"
    by (simp add: friuliSearch_fields specMatches_def friulano_def barolo_def sample_regions
        fieldText_def toLowerCase_samples includesStr_def)
  have r: "filteredWines (renderWinesPage friuliSearch) = [friulano, ribolla]"
    by (simp add: renderWinesPage_def friuliSearch_fields matchesType_def
        barolo_def friulano_def ribolla_def sample_regions)
  have "\<not> rawMatches (currentFilters friuliSearch) barolo"
       "\<not> rawMatches (currentFilters friuliSearch) friulano"
       "\<not> rawMatches (currentFilters friuliSearch) ribolla"
    by (simp_all add: friuliSearch_fields rawMatches_def barolo_def friulano_def ribolla_def
        fieldText_def toLowerCase_samples includesStr_def sublist_Cons_right)
  then have a: "applyFilters friuliSearch = Inr (friuliSearch\<lparr>filteredWines := []\<rparr>)"
    by (simp add: applyFilters_valid [OF cellar_valid(2)] friuliSearch_fields(1)
        filterCallback_rawMatches keepWine_samples)
  from cellar_valid(2) s r a show ?thesis by blast
qed

section \<open>The region lists\<close>

lemma set_foldl_setAdd: "set (foldl setAdd acc xs) = set acc \<union> set xs"
  by (induction xs arbitrary: acc) (auto simp: setAdd_def)

lemma distinct_foldl_setAdd: "distinct acc \<Longrightarrow> distinct (foldl setAdd acc xs)"
  by (induction xs arbitrary: acc) (auto simp: setAdd_def)

text \<open>
  The list of the regions page: the normalized regions of the wines of the current
  type, each once, sorted ascending.
\<close>

lemma renderRegionsPage_regions:
  "\<exists>rs. allRegions (renderRegionsPage st) = Some rs
        \<and> distinct rs
        \<and> sorted (map toStringJs rs)
        \<and> set rs = (\<lambda>w. normalizeField (region w)) ` {w \<in> set (winesToUse st). hasRegionText w}"
  by (simp add: renderRegionsPage_def regionSet_def distinct_foldl_setAdd set_foldl_setAdd
      sorted_sort_key)

lemma cellar_regions:
  "hasRegionText barolo" "hasRegionText friulano" "hasRegionText ribolla"
  by (simp_all add: hasRegionText_def barolo_def friulano_def ribolla_def trim_def isSpace_def)

text \<open>
  C9. With a wine of the region \<open>FRIULI\<close> and a wine of the region
  \<open>FRIULI-VENEZIA GIULIA\<close>, two spellings with the same normalized name, the regions
  page lists the canonical name once, and the region filter of
  \<^verbatim>\<open>showRegionFilter\<close> lists both spellings.
\<close>

theorem showRegionFilter_spelling_variants:
  "list_all keepWine (wines cellar)
   \<and> normalizeField (Some ''FRIULI'') = normalizeField (Some ''FRIULI-VENEZIA GIULIA'')
   \<and> allRegions (renderRegionsPage cellar) = Some [Str ''FRIULI-VENEZIA GIULIA'', Str ''PIEMONTE'']
   \<and> showRegionFilter cellar = [''FRIULI'', ''FRIULI-VENEZIA GIULIA'', ''PIEMONTE'']"
proof -
  have le: "''FRIULI'' \<le> ''FRIULI-VENEZIA GIULIA''" "''FRIULI-VENEZIA GIULIA'' \<le> ''PIEMONTE''"
    "\<not> ''PIEMONTE'' \<le> ''FRIULI''" "\<not> ''PIEMONTE'' \<le> ''FRIULI-VENEZIA GIULIA''"
    by (simp_all add: less_char_def)
  have a: "allRegions (renderRegionsPage cellar) = Some [Str ''FRIULI-VENEZIA GIULIA'', Str ''PIEMONTE'']"
    using cellar_regions le
    by (simp add: renderRegionsPage_def regionSet_def winesToUse_def cellar_def setAdd_def
        barolo_def friulano_def ribolla_def sample_regions)
  have b: "showRegionFilter cellar = [''FRIULI'', ''FRIULI-VENEZIA GIULIA'', ''PIEMONTE'']"
    using cellar_regions le
    by (simp add: showRegionFilter_def cellar_def setAdd_def barolo_def friulano_def ribolla_def)
  from cellar_valid(1) a b show ?thesis by (simp add: sample_regions)
qed

section \<open>Region cards and the listing behind them\<close>

lemma valid_region_normal:
  assumes "keepWine w"
  shows "\<exists>c. normalizeField (region w) = Str c \<and> c \<noteq> []
             \<and> normalizeRegionName (Some (Str c)) = Str c"
proof -
  from keepWine_fields [OF assms] obtain r where r: "region w = Some r" "r \<in> set validRegions"
    by blast
  with validRegions_in_table obtain c where c: "map_of regionMap r = Some c" by blast
  from regionMap_values_fixed [OF c] have "map_of regionMap c = Some c" "c \<noteq> []" by simp_all
  with r c show ?thesis by (simp add: normalizeField_def normalizeRegionName_Str)
qed

lemma winesToUse_subset: "set (winesToUse st) \<subseteq> set (wines st)"
  by (auto simp: winesToUse_def split: option.splits)

lemma regionSet_valid:
  assumes "list_all keepWine (wines st)" and "reg \<in> set (regionSet st)"
  shows "\<exists>c. reg = Str c \<and> c \<noteq> [] \<and> normalizeRegionName (Some (Str c)) = Str c"
proof -
  from assms(2) obtain w where w: "w \<in> set (winesToUse st)" "reg = normalizeField (region w)"
    by (auto simp: regionSet_def set_foldl_setAdd)
  with winesToUse_subset assms(1) have "keepWine w" by (auto simp: list_all_iff)
  from valid_region_normal [OF this] w(2) show ?thesis by simp
qed

lemma regionCard_listing:
  assumes "c \<noteq> []" and "normalizeRegionName (Some (Str c)) = Str c"
    and "wines st' = wines st" and "currentFilters st' = currentFilters st"
  shows "card_count (regionCard st' (Str c)) =
           length (filteredWines (renderWinesPage (openCard st (regionCard st' (Str c)))))"
proof (cases "truthy (filter_type (currentFilters st))")
  case True
  then obtain t where "filter_type (currentFilters st) = Some t" "t \<noteq> []"
    by (cases "filter_type (currentFilters st)") auto
  with assms show ?thesis
    by (simp add: regionCard_def regionCount_def renderWinesPage_def openCard_def
        matchesType_def normalizeField_def)
next
  case False
  with assms show ?thesis
    by (simp add: regionCard_def regionCount_def renderWinesPage_def openCard_def
        matchesType_def normalizeField_def)
qed

text \<open>
  With a region criterion and no search, the listing of \<^verbatim>\<open>renderWinesPage\<close> is
  the wines that the matching rule selects.
\<close>

lemma renderWinesPage_specMatches:
  assumes "filter_region (currentFilters st) = Some r" and "r \<noteq> []"
    and "filter_search (currentFilters st) = []"
  shows "filteredWines (renderWinesPage st) = filter (specMatches (currentFilters st)) (wines st)"
proof -
  have mt: "matchesType (filter_type (currentFilters st)) w \<longleftrightarrow>
      (case filter_type (currentFilters st) of
         None \<Rightarrow> True
       | Some family \<Rightarrow> family = [] \<or> familyMatches w family)" for w
    by (cases "filter_type (currentFilters st)")
       (auto simp: matchesType_def wineMatchesFamily_def familyMatches_def getWineFamily_classify)
  have eq: "(normalizeField (region w) = normalizeField (filter_region (currentFilters st))
             \<and> matchesType (filter_type (currentFilters st)) w)
            = specMatches (currentFilters st) w" for w
    using assms by (auto simp: specMatches_def mt)
  from assms(1,2) have t: "truthy (filter_region (currentFilters st))" by simp
  show ?thesis unfolding renderWinesPage_def eq using t by simp
qed

text \<open>
  C5. On valid wines the regions page renders its cards, and the count on every card
  is the length of the wine listing that the link of the card opens: the listing of
  \<^verbatim>\<open>renderWinesPage\<close> for the region of the card and the current type, which is
  the list of the wines that the matching rule selects for that region and type. The
  count and the listing are filters of the same wines; no counter is kept.
\<close>

theorem region_card_count_is_listing_length:
  assumes "list_all keepWine (wines st)"
  shows "\<exists>cards. filterRegions (renderRegionsPage st) = Inr (Some cards)
           \<and> (\<forall>c \<in> set cards.
                card_count c = length (filteredWines (renderWinesPage (openCard st c)))
                \<and> filteredWines (renderWinesPage (openCard st c)) =
                    filter (specMatches (currentFilters (openCard st c))) (wines st))"
proof -
  let ?st = "renderRegionsPage st"
  let ?regions = "sort_key toStringJs (regionSet st)"
  let ?search = "filter_search (currentFilters ?st)"
  have same: "wines ?st = wines st" "currentFilters ?st = currentFilters st"
    "allRegions ?st = Some ?regions"
    by (simp_all add: renderRegionsPage_def)
  have strs: "\<forall>reg \<in> set ?regions.
      \<exists>c. reg = Str c \<and> c \<noteq> [] \<and> normalizeRegionName (Some (Str c)) = Str c"
    using regionSet_valid [OF assms] by simp
  then have "\<forall>reg \<in> set ?regions. \<exists>b. regionMatchesSearch ?search reg = Inr b"
    by fastforce
  then have "filterE (regionMatchesSearch ?search) ?regions =
      Inr (filter (\<lambda>reg. regionMatchesSearch ?search reg = Inr True) ?regions)"
    by (rule filterE_total)
  with same(3) have cards: "filterRegions ?st =
      Inr (Some (map (regionCard ?st)
                   (filter (\<lambda>reg. regionMatchesSearch ?search reg = Inr True) ?regions)))"
    by (simp add: filterRegions_def)
  have "card_count c = length (filteredWines (renderWinesPage (openCard st c)))
        \<and> filteredWines (renderWinesPage (openCard st c)) =
            filter (specMatches (currentFilters (openCard st c))) (wines st)"
    if "c \<in> set (map (regionCard ?st)
                   (filter (\<lambda>reg. regionMatchesSearch ?search reg = Inr True) ?regions))" for c
  proof -
    from that obtain reg where reg: "reg \<in> set ?regions" "c = regionCard ?st reg" by auto
    with strs obtain n where n: "reg = Str n" "n \<noteq> []"
      "normalizeRegionName (Some (Str n)) = Str n" by blast
    from regionCard_listing [OF n(2) n(3) same(1) same(2)] reg(2) n(1)
    have l: "card_count c = length (filteredWines (renderWinesPage (openCard st c)))" by simp
    from reg(2) n have "card_region c = n" by (simp add: regionCard_def)
    with n(2) have "filter_region (currentFilters (openCard st c)) = Some n"
      "filter_search (currentFilters (openCard st c)) = []" "wines (openCard st c) = wines st"
      by (simp_all add: openCard_def)
    with renderWinesPage_specMatches [of "openCard st c" n] n(2)
    have "filteredWines (renderWinesPage (openCard st c)) =
        filter (specMatches (currentFilters (openCard st c))) (wines st)" by simp
    with l show ?thesis by simp
  qed
  with cards show ?thesis by blast
qed

lemma cellar_cards:
  "filterRegions (renderRegionsPage cellar) =
     Inr (Some [\<lparr>card_region = ''FRIULI-VENEZIA GIULIA'', card_type = None, card_count = 2\<rparr>,
                \<lparr>card_region = ''PIEMONTE'', card_type = None, card_count = 1\<rparr>])"
proof -
  have le: "''FRIULI-VENEZIA GIULIA'' \<le> ''PIEMONTE''" "\<not> ''PIEMONTE'' \<le> ''FRIULI-VENEZIA GIULIA''"
    by (simp_all add: less_char_def)
  have a: "allRegions (renderRegionsPage cellar) = Some [Str ''FRIULI-VENEZIA GIULIA'', Str ''PIEMONTE'']"
    using cellar_regions le
    by (simp add: renderRegionsPage_def regionSet_def winesToUse_def cellar_def setAdd_def
        barolo_def friulano_def ribolla_def sample_regions)
  have w: "wines (renderRegionsPage cellar) = [barolo, friulano, ribolla]"
    "currentFilters (renderRegionsPage cellar) =
       \<lparr>filter_type = None, filter_region = None, filter_search = []\<rparr>"
    by (simp_all add: renderRegionsPage_def cellar_def)
  have n: "normalizeRegionName (Some (Str ''FRIULI-VENEZIA GIULIA'')) = Str ''FRIULI-VENEZIA GIULIA''"
    "normalizeRegionName (Some (Str ''PIEMONTE'')) = Str ''PIEMONTE''"
    by (simp_all add: normalizeRegionName_Str regionMap_def)
  show ?thesis
    by (simp add: filterRegions_def a w regionCard_def regionCount_def n
        barolo_def friulano_def ribolla_def sample_regions)
qed

theorem region_card_count_is_listing_length_witness:
  "list_all keepWine (wines cellar)
   \<and> filterRegions (renderRegionsPage cellar) =
       Inr (Some [\<lparr>card_region = ''FRIULI-VENEZIA GIULIA'', card_type = None, card_count = 2\<rparr>,
                  \<lparr>card_region = ''PIEMONTE'', card_type = None, card_count = 1\<rparr>])
   \<and> length (filteredWines (renderWinesPage (openCard cellar
        \<lparr>card_region = ''FRIULI-VENEZIA GIULIA'', card_type = None, card_count = 2\<rparr>))) = 2"
proof -
  from region_card_count_is_listing_length [OF cellar_valid(1)] cellar_cards
  have "length (filteredWines (renderWinesPage (openCard cellar
        \<lparr>card_region = ''FRIULI-VENEZIA GIULIA'', card_type = None, card_count = 2\<rparr>))) = 2"
    by auto
  with cellar_valid(1) cellar_cards show ?thesis by simp
qed

end
